theory Spec2Isabelle
  imports Complex_Main "HOL-Library.AList"
begin

section \<open>Graceful degradation: circuit breakers and fallbacks\<close>

text \<open>
  Embedding of \<^verbatim>\<open>src/utils/graceful_degradation.py\<close>.

  Conventions of the model:
  \<^item> Readings of \<^verbatim>\<open>time.time()\<close> are passed in as arguments of type \<open>real\<close>, one
    argument for each place where the source reads the clock. Python floats are
    idealised as reals; the breaker only subtracts and compares them.
  \<^item> A callable is a function on an abstract world \<open>'w\<close> that returns its outcome
    together with the new world, so that "the operation was not invoked" is
    visible: the world is unchanged and the result does not depend on the callable.
    The positional and keyword arguments are part of the callable.
  \<^item> A raised exception is the \<open>Inl\<close> of a sum. \<open>Exception\<close> stands for any
    instance of \<^verbatim>\<open>Exception\<close> other than \<^verbatim>\<open>ServiceUnavailableError\<close> (class name and
    message), \<open>BaseException\<close> for an instance of \<^verbatim>\<open>BaseException\<close> that is not an
    \<^verbatim>\<open>Exception\<close> (\<^verbatim>\<open>KeyboardInterrupt\<close>, \<^verbatim>\<open>SystemExit\<close>), which \<^verbatim>\<open>except Exception\<close>
    does not catch.
  \<^item> A \<^verbatim>\<open>dict\<close> is an association list in insertion order; \<open>AList.update\<close> replaces
    the value of a present key in place and appends an absent key, as assignment
    to a dict does.
\<close>

datatype ServiceStatus = HEALTHY | DEGRADED | FAILED | RECOVERING

record ServiceConfig =
  name :: string
  max_failures :: int
  failure_window :: int
  recovery_time :: int
  fallback_enabled :: bool

record CircuitBreaker =
  config :: ServiceConfig
  failure_count :: int
  last_failure_time :: real
  status :: ServiceStatus

datatype exn =
  ServiceUnavailableError string
  | Exception string string
  | BaseException string string

fun is_Exception :: "exn \<Rightarrow> bool" where
  "is_Exception (ServiceUnavailableError msg) = True"
| "is_Exception (Exception cls msg) = True"
| "is_Exception (BaseException cls msg) = False"

type_synonym ('w, 'r) callable = "'w \<Rightarrow> (exn + 'r) \<times> 'w"

text \<open>\<^verbatim>\<open>CircuitBreaker.__init__\<close>\<close>

definition CircuitBreaker_init :: "ServiceConfig \<Rightarrow> CircuitBreaker" where
  "CircuitBreaker_init cfg =
     \<lparr>config = cfg, failure_count = 0, last_failure_time = 0, status = HEALTHY\<rparr>"

text \<open>
  \<^verbatim>\<open>CircuitBreaker.call\<close>, lines 44 to 51: the recovery check made under the lock
  before the wrapped function runs. \<open>now\<close> is the clock reading of line 47.
\<close>

definition check_recovery :: "CircuitBreaker \<Rightarrow> real \<Rightarrow> exn + CircuitBreaker" where
  "check_recovery cb now =
     (if status cb = FAILED then
        (if now - last_failure_time cb > real_of_int (recovery_time (config cb))
         then Inr (cb\<lparr>status := RECOVERING\<rparr>)
         else Inl (ServiceUnavailableError
                     (''Servicio '' @ name (config cb) @ '' no disponible'')))
      else Inr cb)"

text \<open>
  \<^verbatim>\<open>CircuitBreaker.call\<close>, lines 53 to 77: the wrapped function is invoked on the
  world \<open>w\<close>; \<open>now'\<close> is the clock reading of line 68, in the exception handler.
\<close>

definition run_operation ::
  "CircuitBreaker \<Rightarrow> ('w, 'r) callable \<Rightarrow> 'w \<Rightarrow> real \<Rightarrow> (exn + 'r) \<times> CircuitBreaker \<times> 'w" where
  "run_operation cb func w now' =
     (case func w of
        (Inr result, w') \<Rightarrow>
          (Inr result, cb\<lparr>failure_count := 0, status := HEALTHY\<rparr>, w')
      | (Inl e, w') \<Rightarrow>
          (if is_Exception e then
             (let cb1 = cb\<lparr>failure_count := failure_count cb + 1, last_failure_time := now'\<rparr>
              in (Inl e,
                  (if failure_count cb1 \<ge> max_failures (config cb1)
                   then cb1\<lparr>status := FAILED\<rparr>
                   else cb1\<lparr>status := DEGRADED\<rparr>),
                  w'))
           else (Inl e, cb, w')))"

definition call ::
  "CircuitBreaker \<Rightarrow> real \<Rightarrow> ('w, 'r) callable \<Rightarrow> 'w \<Rightarrow> real \<Rightarrow> (exn + 'r) \<times> CircuitBreaker \<times> 'w" where
  "call cb now func w now' =
     (case check_recovery cb now of
        Inl e \<Rightarrow> (Inl e, cb, w)
      | Inr cb1 \<Rightarrow> run_operation cb1 func w now')"

text \<open>
  \<^verbatim>\<open>GracefulDegradation\<close>: the registry of breakers and the registry of fallbacks.
  A breaker object is mutated in place by the source; the model writes the new
  breaker back under its key.
\<close>

record ('w, 'r) GracefulDegradation =
  services :: "(string \<times> CircuitBreaker) list"
  fallback_handlers :: "(string \<times> ('w, 'r) callable) list"
  initialized :: bool

definition GracefulDegradation_init :: "('w, 'r) GracefulDegradation" where
  "GracefulDegradation_init = \<lparr>services = [], fallback_handlers = [], initialized = False\<rparr>"

definition register_service ::
  "('w, 'r) GracefulDegradation \<Rightarrow> ServiceConfig \<Rightarrow> ('w, 'r) GracefulDegradation" where
  "register_service m cfg =
     m\<lparr>services := AList.update (name cfg) (CircuitBreaker_init cfg) (services m)\<rparr>"

definition register_fallback ::
  "('w, 'r) GracefulDegradation \<Rightarrow> string \<Rightarrow> ('w, 'r) callable \<Rightarrow> ('w, 'r) GracefulDegradation" where
  "register_fallback m service_name fallback_func =
     m\<lparr>fallback_handlers := AList.update service_name fallback_func (fallback_handlers m)\<rparr>"

text \<open>The configuration built at lines 117 and 130 for a name that is not registered.\<close>

definition default_config :: "string \<Rightarrow> ServiceConfig" where
  "default_config service_name =
     \<lparr>name = service_name, max_failures = 3, failure_window = 300,
      recovery_time = 60, fallback_enabled = True\<rparr>"

definition can_operate_in_degraded_mode :: "('w, 'r) GracefulDegradation \<Rightarrow> bool" where
  "can_operate_in_degraded_mode m =
     (if services m = [] then True
      else
        (let available_services =
               fold (\<lambda>(service_name, circuit_breaker) n.
                       if status circuit_breaker \<in> set [HEALTHY, DEGRADED]
                          \<or> map_of (fallback_handlers m) service_name \<noteq> None
                       then n + 1 else n)
                    (services m) (0 :: int)
         in available_services > 0))"

text \<open>
  \<open>now\<close> is the clock reading of line 123. The lookup after the registration
  cannot miss (in Python it would be a \<^verbatim>\<open>KeyError\<close>); the model leaves the
  registry as it is there.
\<close>

definition mark_service_unavailable ::
  "('w, 'r) GracefulDegradation \<Rightarrow> string \<Rightarrow> real \<Rightarrow> ('w, 'r) GracefulDegradation" where
  "mark_service_unavailable m service_name now =
     (let m1 = (if map_of (services m) service_name = None
                then register_service m (default_config service_name) else m)
      in case map_of (services m1) service_name of
           None \<Rightarrow> m1
         | Some cb \<Rightarrow>
             m1\<lparr>services :=
                  AList.update service_name
                    (cb\<lparr>status := FAILED,
                        failure_count := max_failures (config cb),
                        last_failure_time := now\<rparr>)
                    (services m1)\<rparr>)"

definition is_service_available ::
  "('w, 'r) GracefulDegradation \<Rightarrow> string \<Rightarrow> bool \<times> ('w, 'r) GracefulDegradation" where
  "is_service_available m service_name =
     (let m1 = (if map_of (services m) service_name = None
                then register_service m (default_config service_name) else m)
      in case map_of (services m1) service_name of
           None \<Rightarrow> (False, m1)
         | Some circuit_breaker \<Rightarrow>
             (status circuit_breaker \<in> set [HEALTHY, DEGRADED, RECOVERING], m1))"

text \<open>
  \<^verbatim>\<open>call_service\<close>: \<open>now\<close> and \<open>now'\<close> are the two clock readings of the breaker's
  \<^verbatim>\<open>call\<close>. The fallback runs on the world the failed operation left behind.
\<close>

definition call_service ::
  "('w, 'r) GracefulDegradation \<Rightarrow> string \<Rightarrow> real \<Rightarrow> ('w, 'r) callable \<Rightarrow> 'w \<Rightarrow> real
     \<Rightarrow> (exn + 'r) \<times> ('w, 'r) GracefulDegradation \<times> 'w" where
  "call_service m service_name now func w now' =
     (case map_of (services m) service_name of
        None \<Rightarrow> (case func w of (res, w') \<Rightarrow> (res, m, w'))
      | Some circuit_breaker \<Rightarrow>
          (case call circuit_breaker now func w now' of
             (res, cb', w') \<Rightarrow>
               (let m' = m\<lparr>services := AList.update service_name cb' (services m)\<rparr>
                in case res of
                     Inr result \<Rightarrow> (Inr result, m', w')
                   | Inl (ServiceUnavailableError msg) \<Rightarrow>
                       (case map_of (fallback_handlers m) service_name of
                          Some fallback \<Rightarrow> (case fallback w' of (r, w'') \<Rightarrow> (r, m', w''))
                        | None \<Rightarrow> (Inl (ServiceUnavailableError msg), m', w'))
                   | Inl (Exception cls msg) \<Rightarrow>
                       (case map_of (fallback_handlers m) service_name of
                          Some fallback \<Rightarrow>
                            (if fallback_enabled (config circuit_breaker)
                             then (case fallback w' of (r, w'') \<Rightarrow> (r, m', w''))
                             else (Inl (Exception cls msg), m', w'))
                        | None \<Rightarrow> (Inl (Exception cls msg), m', w'))
                   | Inl (BaseException cls msg) \<Rightarrow> (Inl (BaseException cls msg), m', w'))))"

text \<open>
  The manager states that sequences of its operations reach from a fresh manager.
  Every breaker is created by \<^verbatim>\<open>register_service\<close> (directly or by the
  auto-registration of \<^verbatim>\<open>mark_service_unavailable\<close> and \<^verbatim>\<open>is_service_available\<close>)
  and changed only by \<^verbatim>\<open>call\<close> (through \<^verbatim>\<open>call_service\<close>) and
  \<^verbatim>\<open>mark_service_unavailable\<close>.
\<close>

inductive reachable :: "('w, 'r) GracefulDegradation \<Rightarrow> bool" where
  r_init: "reachable GracefulDegradation_init"
| r_register_service: "reachable m \<Longrightarrow> reachable (register_service m cfg)"
| r_register_fallback: "reachable m \<Longrightarrow> reachable (register_fallback m service_name fb)"
| r_call_service:
    "reachable m \<Longrightarrow> call_service m service_name now func w now' = (res, m', w')
       \<Longrightarrow> reachable m'"
| r_mark: "reachable m \<Longrightarrow> reachable (mark_service_unavailable m service_name now)"
| r_is_available:
    "reachable m \<Longrightarrow> is_service_available m service_name = (b, m') \<Longrightarrow> reachable m'"

text \<open>The invariant stated for the breaker's state in the data model.\<close>

definition breaker_invariant :: "CircuitBreaker \<Rightarrow> bool" where
  "breaker_invariant cb \<longleftrightarrow>
     (status cb = HEALTHY \<longrightarrow> failure_count cb = 0) \<and>
     (status cb = FAILED \<longrightarrow> failure_count cb \<ge> max_failures (config cb))"

section \<open>The error collector\<close>

text \<open>
  Embedding of \<^verbatim>\<open>ErrorCollector\<close> in \<^verbatim>\<open>src/utils/error_handler.py\<close>.

  The exception handed to \<^verbatim>\<open>add_error\<close> is seen through what the method reads of
  it: the name of its class, its \<^verbatim>\<open>str\<close>, and, for an \<^verbatim>\<open>AgentError\<close>, its
  \<^verbatim>\<open>error_code\<close> and \<^verbatim>\<open>details\<close>. The results of \<^verbatim>\<open>datetime.now().isoformat()\<close>
  and of \<^verbatim>\<open>traceback.format_exc()\<close> are arguments. Every exception object has the
  attribute \<^verbatim>\<open>__traceback__\<close>, so the trace is always taken.
  The keys of the record's dict are the fields of \<open>ErrorInfo\<close>; the two keys only
  an \<^verbatim>\<open>AgentError\<close> has are optional fields.
\<close>

record error_object =
  type_name :: string
  str_of :: string
  agent_error :: "(string \<times> (string \<times> string) list) option"

record ErrorInfo =
  timestamp :: string
  type :: string
  message :: string
  context_dict :: "(string \<times> string) list"
  traceback :: "string option"
  error_code :: "string option"
  details :: "(string \<times> string) list option"

record ErrorCollector =
  max_errors :: int
  errors :: "ErrorInfo list"
  error_counts :: "(string \<times> int) list"

definition ErrorCollector_init :: "int \<Rightarrow> ErrorCollector" where
  "ErrorCollector_init n = \<lparr>max_errors = n, errors = [], error_counts = []\<rparr>"

text \<open>The default of the constructor's parameter.\<close>

definition default_max_errors :: int where
  "default_max_errors = 1000"

text \<open>Lines 154 to 167: the record built for one error.\<close>

definition error_info ::
  "error_object \<Rightarrow> (string \<times> string) list option \<Rightarrow> string \<Rightarrow> string \<Rightarrow> ErrorInfo" where
  "error_info error ctx now trace =
     (let info =
            \<lparr>timestamp = now, type = type_name error, message = str_of error,
             context_dict = (case ctx of None \<Rightarrow> [] | Some c \<Rightarrow> c),
             traceback = Some trace, error_code = None, details = None\<rparr>
      in case agent_error error of
           None \<Rightarrow> info
         | Some (code, det) \<Rightarrow> info\<lparr>error_code := Some code, details := Some det\<rparr>)"

definition add_error ::
  "ErrorCollector \<Rightarrow> error_object \<Rightarrow> (string \<times> string) list option \<Rightarrow> string \<Rightarrow> string
     \<Rightarrow> ErrorCollector" where
  "add_error ec error ctx now trace =
     (let errors1 = errors ec @ [error_info error ctx now trace];
          errors2 = (if int (length errors1) > max_errors ec then tl errors1 else errors1);
          error_type = type_name error;
          old_count = (case map_of (error_counts ec) error_type of None \<Rightarrow> 0 | Some c \<Rightarrow> c)
      in ec\<lparr>errors := errors2,
            error_counts := AList.update error_type (old_count + 1) (error_counts ec)\<rparr>)"

text \<open>One \<^verbatim>\<open>add_error\<close> call with everything it reads, and a sequence of such calls.\<close>

type_synonym add_error_call =
  "error_object \<times> (string \<times> string) list option \<times> string \<times> string"

fun add_errors :: "ErrorCollector \<Rightarrow> add_error_call list \<Rightarrow> ErrorCollector" where
  "add_errors ec [] = ec"
| "add_errors ec ((error, ctx, now, trace) # rest) =
     add_errors (add_error ec error ctx now trace) rest"

text \<open>The record a call appends, and the class name it counts.\<close>

fun info_of :: "add_error_call \<Rightarrow> ErrorInfo" where
  "info_of (error, ctx, now, trace) = error_info error ctx now trace"

fun type_of_call :: "add_error_call \<Rightarrow> string" where
  "type_of_call (error, ctx, now, trace) = type_name error"

record ErrorSummary =
  total_errors :: nat
  summary_error_counts :: "(string \<times> int) list"
  recent_errors :: "ErrorInfo list"

definition get_error_summary :: "ErrorCollector \<Rightarrow> ErrorSummary" where
  "get_error_summary ec =
     \<lparr>total_errors = length (errors ec),
      summary_error_counts = error_counts ec,
      recent_errors = (if errors ec \<noteq> [] then drop (length (errors ec) - 10) (errors ec) else [])\<rparr>"

definition clear_errors :: "ErrorCollector \<Rightarrow> ErrorCollector" where
  "clear_errors ec = ec\<lparr>errors := [], error_counts := []\<rparr>"

section \<open>The health monitor\<close>

text \<open>
  Embedding of \<^verbatim>\<open>HealthMonitor\<close> in \<^verbatim>\<open>src/utils/health_monitor.py\<close>.

  Python floats are idealised as reals. The counters of \<^verbatim>\<open>APIMetrics\<close> start at 0
  and are only ever incremented, so they are natural numbers. The fields
  \<^verbatim>\<open>timestamp\<close> and \<^verbatim>\<open>status\<close> of \<^verbatim>\<open>HealthMetrics\<close> are \<open>sample_timestamp\<close> and
  \<open>health_status\<close> here, apart from the fields of the same names above. The
  thread, its stop event and the log lines are not part of the state.
\<close>

record HealthMetrics =
  sample_timestamp :: string
  cpu_percent :: real
  memory_percent :: real
  memory_available_mb :: real
  disk_usage_percent :: real
  uptime_seconds :: real
  active_connections :: int
  error_rate :: real
  api_response_time_avg :: real
  health_status :: string

record APIMetrics =
  service_name :: string
  total_calls :: nat
  successful_calls :: nat
  failed_calls :: nat
  avg_response_time :: real
  last_error :: "string option"
  last_success :: string

text \<open>The dict \<^verbatim>\<open>self.thresholds\<close>, one field for each of its keys.\<close>

record Thresholds =
  cpu_warning :: real
  cpu_critical :: real
  memory_warning :: real
  memory_critical :: real
  disk_warning :: real
  disk_critical :: real
  error_rate_warning :: real
  error_rate_critical :: real
  response_time_warning :: real
  response_time_critical :: real

record HealthMonitor =
  check_interval :: int
  start_time :: real
  is_running :: bool
  error_collector :: ErrorCollector
  api_metrics :: "(string \<times> APIMetrics) list"
  health_history :: "HealthMetrics list"
  max_history :: int
  thresholds :: Thresholds

text \<open>\<^verbatim>\<open>HealthMonitor.__init__\<close>; \<open>now\<close> is the clock reading of line 51.\<close>

definition HealthMonitor_init :: "int \<Rightarrow> real \<Rightarrow> HealthMonitor" where
  "HealthMonitor_init interval now =
     \<lparr>check_interval = interval, start_time = now, is_running = False,
      error_collector = ErrorCollector_init default_max_errors,
      api_metrics = [], health_history = [], max_history = 100,
      thresholds =
        \<lparr>cpu_warning = 70, cpu_critical = 90,
         memory_warning = 80, memory_critical = 95,
         disk_warning = 85, disk_critical = 95,
         error_rate_warning = 5, error_rate_critical = 15,
         response_time_warning = 5, response_time_critical = 10\<rparr>\<rparr>"

text \<open>
  \<^verbatim>\<open>record_api_call\<close>: \<open>created\<close> and \<open>now\<close> are the results of
  \<^verbatim>\<open>datetime.now().isoformat()\<close> at lines 185 and 193. The lookup after the
  insertion cannot miss; the model leaves the monitor as it is there.
\<close>

definition record_api_call ::
  "HealthMonitor \<Rightarrow> string \<Rightarrow> bool \<Rightarrow> real \<Rightarrow> string option \<Rightarrow> string \<Rightarrow> string
     \<Rightarrow> HealthMonitor" where
  "record_api_call hm service success response_time error created now =
     (let am = (if map_of (api_metrics hm) service = None
                then AList.update service
                       \<lparr>service_name = service, total_calls = 0, successful_calls = 0,
                        failed_calls = 0, avg_response_time = 0, last_error = None,
                        last_success = created\<rparr>
                       (api_metrics hm)
                else api_metrics hm)
      in case map_of am service of
           None \<Rightarrow> hm
         | Some metrics \<Rightarrow>
             (let m1 = metrics\<lparr>total_calls := total_calls metrics + 1\<rparr>;
                  m2 = (if success
                        then m1\<lparr>successful_calls := successful_calls m1 + 1, last_success := now\<rparr>
                        else m1\<lparr>failed_calls := failed_calls m1 + 1, last_error := error\<rparr>);
                  m3 = m2\<lparr>avg_response_time :=
                            (avg_response_time m2 * real (total_calls m2 - 1) + response_time)
                            / real (total_calls m2)\<rparr>
              in hm\<lparr>api_metrics := AList.update service m3 am\<rparr>))"

definition calculate_error_rate :: "HealthMonitor \<Rightarrow> real" where
  "calculate_error_rate hm =
     (let total_errs = sum_list (map snd (error_counts (error_collector hm)));
          total_operations = sum_list (map (\<lambda>(k, api). total_calls api) (api_metrics hm))
      in if total_operations = 0 then 0
         else (real_of_int total_errs / real total_operations) * 100)"

definition calculate_avg_response_time :: "HealthMonitor \<Rightarrow> real" where
  "calculate_avg_response_time hm =
     (if api_metrics hm = [] then 0
      else
        (let total_time = sum_list (map (\<lambda>(k, api). avg_response_time api) (api_metrics hm))
         in total_time / real (length (api_metrics hm))))"

definition determine_health_status ::
  "HealthMonitor \<Rightarrow> real \<Rightarrow> real \<Rightarrow> real \<Rightarrow> real \<Rightarrow> real \<Rightarrow> string" where
  "determine_health_status hm cpu memory disk err_rate response_time =
     (if cpu \<ge> cpu_critical (thresholds hm) \<or>
         memory \<ge> memory_critical (thresholds hm) \<or>
         disk \<ge> disk_critical (thresholds hm) \<or>
         err_rate \<ge> error_rate_critical (thresholds hm) \<or>
         response_time \<ge> response_time_critical (thresholds hm)
      then ''critical''
      else if cpu \<ge> cpu_warning (thresholds hm) \<or>
              memory \<ge> memory_warning (thresholds hm) \<or>
              disk \<ge> disk_warning (thresholds hm) \<or>
              err_rate \<ge> error_rate_warning (thresholds hm) \<or>
              response_time \<ge> response_time_warning (thresholds hm)
      then ''warning''
      else ''healthy'')"

text \<open>
  What \<^verbatim>\<open>collect_metrics\<close> reads from outside, in the order it reads it: each
  metrics source either raises or gives its value.
  \<^item> \<open>cpu_source\<close>: \<^verbatim>\<open>psutil.cpu_percent(interval=1)\<close>;
  \<^item> \<open>memory_source\<close>: \<^verbatim>\<open>psutil.virtual_memory()\<close>, its \<^verbatim>\<open>percent\<close> and \<^verbatim>\<open>available\<close>;
  \<^item> \<open>disk_source\<close>: \<^verbatim>\<open>psutil.disk_usage\<close> of the current drive, its \<^verbatim>\<open>percent\<close>;
  \<^item> \<open>clock\<close>: \<^verbatim>\<open>time.time()\<close>;
  \<^item> \<open>connections_source\<close>: \<^verbatim>\<open>len(psutil.net_connections())\<close>;
  \<^item> \<open>stamp\<close> and \<open>stamp_except\<close>: \<^verbatim>\<open>datetime.now().isoformat()\<close> at lines 148 and 163.
\<close>

record MetricSources =
  cpu_source :: "exn + real"
  memory_source :: "exn + real \<times> real"
  disk_source :: "exn + real"
  clock :: real
  connections_source :: "exn + nat"
  stamp :: string
  stamp_except :: string

text \<open>Lines 121 to 158: the body of the \<^verbatim>\<open>try\<close>.\<close>

definition collect_body :: "HealthMonitor \<Rightarrow> MetricSources \<Rightarrow> exn + HealthMetrics" where
  "collect_body hm src =
     (case cpu_source src of
        Inl e \<Rightarrow> Inl e
      | Inr cpu \<Rightarrow>
     (case memory_source src of
        Inl e \<Rightarrow> Inl e
      | Inr (mem_percent, mem_available) \<Rightarrow>
     (case disk_source src of
        Inl e \<Rightarrow> Inl e
      | Inr disk \<Rightarrow>
     (let uptime = clock src - start_time hm in
      case connections_source src of
        Inl e \<Rightarrow> Inl e
      | Inr connections \<Rightarrow>
          (let err_rate = calculate_error_rate hm;
               avg_time = calculate_avg_response_time hm;
               st = determine_health_status hm cpu mem_percent disk err_rate avg_time
           in Inr \<lparr>sample_timestamp = stamp src,
                   cpu_percent = cpu,
                   memory_percent = mem_percent,
                   memory_available_mb = mem_available / (1024 * 1024),
                   disk_usage_percent = disk,
                   uptime_seconds = uptime,
                   active_connections = int connections,
                   error_rate = err_rate,
                   api_response_time_avg = avg_time,
                   health_status = st\<rparr>)))))"

text \<open>Lines 160 to 173: the sample returned when the body raised an \<^verbatim>\<open>Exception\<close>.\<close>

definition failure_sample :: "string \<Rightarrow> HealthMetrics" where
  "failure_sample ts =
     \<lparr>sample_timestamp = ts,
      cpu_percent = 0,
      memory_percent = 0,
      memory_available_mb = 0,
      disk_usage_percent = 0,
      uptime_seconds = 0,
      active_connections = 0,
      error_rate = 100,
      api_response_time_avg = 0,
      health_status = ''critical''\<rparr>"

definition collect_metrics :: "HealthMonitor \<Rightarrow> MetricSources \<Rightarrow> exn + HealthMetrics" where
  "collect_metrics hm src =
     (case collect_body hm src of
        Inr metrics \<Rightarrow> Inr metrics
      | Inl e \<Rightarrow> (if is_Exception e then Inr (failure_sample (stamp_except src)) else Inl e))"

text \<open>
  One pass through the body of the loop of \<^verbatim>\<open>_monitoring_loop\<close>, and the loop over
  the source readings of the intervals that elapse before the stop event is set.
  An exception that is not an \<^verbatim>\<open>Exception\<close> ends the loop.
\<close>

definition monitoring_iteration :: "HealthMonitor \<Rightarrow> MetricSources \<Rightarrow> exn + HealthMonitor" where
  "monitoring_iteration hm src =
     (case collect_metrics hm src of
        Inl e \<Rightarrow> Inl e
      | Inr metrics \<Rightarrow>
          (let h1 = health_history hm @ [metrics];
               h2 = (if int (length h1) > max_history hm then tl h1 else h1)
           in Inr (hm\<lparr>health_history := h2\<rparr>)))"

fun monitoring_loop :: "HealthMonitor \<Rightarrow> MetricSources list \<Rightarrow> exn + HealthMonitor" where
  "monitoring_loop hm [] = Inr hm"
| "monitoring_loop hm (src # rest) =
     (case monitoring_iteration hm src of
        Inl e \<Rightarrow> Inl e
      | Inr hm' \<Rightarrow> monitoring_loop hm' rest)"

text \<open>The exceptions the sources of one sample hold, in the order of the reads.\<close>

definition raised :: "MetricSources \<Rightarrow> exn list" where
  "raised src =
     (case cpu_source src of Inl e \<Rightarrow> [e] | Inr v \<Rightarrow> []) @
     (case memory_source src of Inl e \<Rightarrow> [e] | Inr v \<Rightarrow> []) @
     (case disk_source src of Inl e \<Rightarrow> [e] | Inr v \<Rightarrow> []) @
     (case connections_source src of Inl e \<Rightarrow> [e] | Inr v \<Rightarrow> [])"

section \<open>Scenario data and observations\<close>

text \<open>
  Concrete inputs for the scenarios: the service of the specification's scenario
  (three failures trip it, one second of recovery time), callables on a world
  that counts invocations, and a breaker that tripped at time 100.
\<close>

definition llm_config :: ServiceConfig where
  "llm_config =
     \<lparr>name = ''llm'', max_failures = 3, failure_window = 300,
      recovery_time = 1, fallback_enabled = True\<rparr>"

definition tripped_breaker :: CircuitBreaker where
  "tripped_breaker =
     \<lparr>config = llm_config, failure_count = 3, last_failure_time = 100, status = FAILED\<rparr>"

definition ok_op :: "(nat, string) callable" where
  "ok_op w = (Inr ''real'', Suc w)"

definition failing_op :: "(nat, string) callable" where
  "failing_op w = (Inl (Exception ''TimeoutError'' ''timed out''), Suc w)"

definition unavailable_op :: "(nat, string) callable" where
  "unavailable_op w = (Inl (ServiceUnavailableError ''upstream unavailable''), Suc w)"

definition interrupted_op :: "(nat, string) callable" where
  "interrupted_op w = (Inl (BaseException ''KeyboardInterrupt'' ''''), Suc w)"

definition fallback_F :: "(nat, string) callable" where
  "fallback_F w = (Inr ''degraded'', w)"

definition no_fallback_config :: ServiceConfig where
  "no_fallback_config = llm_config\<lparr>fallback_enabled := False\<rparr>"

definition recovering_manager :: "(nat, string) GracefulDegradation" where
  "recovering_manager =
     \<lparr>services = [(''llm'', tripped_breaker\<lparr>status := RECOVERING\<rparr>)],
      fallback_handlers = [], initialized = False\<rparr>"

definition no_fallback_flag_manager :: "(nat, string) GracefulDegradation" where
  "no_fallback_flag_manager =
     register_fallback (register_service GracefulDegradation_init no_fallback_config)
       ''llm'' fallback_F"

text \<open>Every breaker of the registry satisfies the invariant of the data model.\<close>

definition registry_ok :: "('w, 'r) GracefulDegradation \<Rightarrow> bool" where
  "registry_ok m \<longleftrightarrow> list_all (\<lambda>(k, cb). breaker_invariant cb) (services m)"

text \<open>
  The counter of one class name, read the way \<^verbatim>\<open>add_error\<close> reads it
  (\<^verbatim>\<open>error_counts.get(error_type, 0)\<close>), and one \<^verbatim>\<open>add_error\<close> call of a \<^verbatim>\<open>ValueError\<close>.
\<close>

definition error_count :: "ErrorCollector \<Rightarrow> string \<Rightarrow> int" where
  "error_count ec t = (case map_of (error_counts ec) t of None \<Rightarrow> 0 | Some c \<Rightarrow> c)"

definition sample_call :: add_error_call where
  "sample_call =
     (\<lparr>type_name = ''ValueError'', str_of = ''bad value'', agent_error = None\<rparr>,
      None, ''2024-01-01T00:00:00'', ''NoneType: None'')"

text \<open>
  The call count and the running average of one service as the monitor holds
  them; a service without a row has made no call, and its row would start with
  the average 0.
\<close>

definition api_total :: "HealthMonitor \<Rightarrow> string \<Rightarrow> nat" where
  "api_total hm service =
     (case map_of (api_metrics hm) service of None \<Rightarrow> 0 | Some metrics \<Rightarrow> total_calls metrics)"

definition api_avg :: "HealthMonitor \<Rightarrow> string \<Rightarrow> real" where
  "api_avg hm service =
     (case map_of (api_metrics hm) service of None \<Rightarrow> 0 | Some metrics \<Rightarrow> avg_response_time metrics)"

text \<open>The sources of one sample when the disk of the current drive cannot be read.\<close>

definition unreadable_sources :: MetricSources where
  "unreadable_sources =
     \<lparr>cpu_source = Inr 12,
      memory_source = Inr (50, 4194304),
      disk_source = Inl (Exception ''FileNotFoundError'' ''no such drive''),
      clock = 60,
      connections_source = Inr 3,
      stamp = ''2024-01-01T00:01:00'',
      stamp_except = ''2024-01-01T00:01:01''\<rparr>"

section \<open>Properties of the circuit breaker\<close>

lemma run_operation_invokes:
  "fst (run_operation cb func w t) = fst (func w) \<and>
   snd (snd (run_operation cb func w t)) = snd (func w)"
  by (simp add: run_operation_def Let_def split: prod.splits sum.splits)

text \<open>
  C1, as stated, fails at the boundary: the source compares with \<^verbatim>\<open>>\<close>, so a call
  made exactly \<^verbatim>\<open>recovery_time\<close> seconds after the last failure is still refused.
  The breaker tripped at 100 with one second of recovery time; at 101 the
  elapsed time equals the recovery time, the call raises
  \<^verbatim>\<open>ServiceUnavailableError\<close>, the breaker stays as it was and the operation has
  not run (the invocation counter is still 0).
\<close>

theorem C1_counterexample:
  "status tripped_breaker = FAILED \<and>
   101 - last_failure_time tripped_breaker \<ge> real_of_int (recovery_time (config tripped_breaker)) \<and>
   call tripped_breaker 101 ok_op 0 102
     = (Inl (ServiceUnavailableError ''Servicio llm no disponible''), tripped_breaker, 0) \<and>
   call tripped_breaker 101 ok_op 0 102
     \<noteq> run_operation (tripped_breaker\<lparr>status := RECOVERING\<rparr>) ok_op 0 102"
  by (simp add: tripped_breaker_def llm_config_def call_def check_recovery_def
        run_operation_def ok_op_def)

text \<open>
  C1, amended: for a breaker whose status is FAILED, a call made when
  \<open>now - last_failure_time \<le> recovery_time\<close> raises \<^verbatim>\<open>ServiceUnavailableError\<close>
  at once, leaves the breaker and the world unchanged and does not depend on the
  operation (it is never invoked); a call made when
  \<open>now - last_failure_time > recovery_time\<close> first sets the status to RECOVERING
  and then invokes the operation: outcome and world are those of the operation.
\<close>

theorem C1_failed_breaker_gate:
  assumes "status cb = FAILED"
  shows "(now - last_failure_time cb \<le> real_of_int (recovery_time (config cb)) \<longrightarrow>
            call cb now func w now'
              = (Inl (ServiceUnavailableError (''Servicio '' @ name (config cb) @ '' no disponible'')),
                 cb, w)) \<and>
         (now - last_failure_time cb > real_of_int (recovery_time (config cb)) \<longrightarrow>
            check_recovery cb now = Inr (cb\<lparr>status := RECOVERING\<rparr>) \<and>
            call cb now func w now' = run_operation (cb\<lparr>status := RECOVERING\<rparr>) func w now' \<and>
            fst (call cb now func w now') = fst (func w) \<and>
            snd (snd (call cb now func w now')) = snd (func w))"
  using assms by (simp add: call_def check_recovery_def run_operation_invokes)

text \<open>
  Witness for C1, amended: the tripped breaker called at 101 (refused) and at 102
  (recovery attempted, the operation runs once and succeeds).
\<close>

theorem C1_failed_breaker_gate_witness:
  "status tripped_breaker = FAILED \<and>
   call tripped_breaker 101 ok_op 0 102
     = (Inl (ServiceUnavailableError ''Servicio llm no disponible''), tripped_breaker, 0) \<and>
   call tripped_breaker 102 ok_op 0 103
     = (Inr ''real'', tripped_breaker\<lparr>failure_count := 0, status := HEALTHY\<rparr>, 1)"
proof -
  have f: "status tripped_breaker = FAILED"
    by (simp add: tripped_breaker_def)
  have le: "101 - last_failure_time tripped_breaker
              \<le> real_of_int (recovery_time (config tripped_breaker))"
    by (simp add: tripped_breaker_def llm_config_def)
  have gt: "102 - last_failure_time tripped_breaker
              > real_of_int (recovery_time (config tripped_breaker))"
    by (simp add: tripped_breaker_def llm_config_def)
  from C1_failed_breaker_gate [OF f, of 101 ok_op 0 102] le
  have a: "call tripped_breaker 101 ok_op 0 102
     = (Inl (ServiceUnavailableError ''Servicio llm no disponible''), tripped_breaker, 0)"
    by (simp add: tripped_breaker_def llm_config_def)
  from C1_failed_breaker_gate [OF f, of 102 ok_op 0 103] gt
  have "call tripped_breaker 102 ok_op 0 103
          = run_operation (tripped_breaker\<lparr>status := RECOVERING\<rparr>) ok_op 0 103"
    by simp
  then have b: "call tripped_breaker 102 ok_op 0 103
     = (Inr ''real'', tripped_breaker\<lparr>failure_count := 0, status := HEALTHY\<rparr>, 1)"
    by (simp add: run_operation_def ok_op_def)
  from f a b show ?thesis by simp
qed

text \<open>
  C2, as stated, fails for an exception that is not an instance of \<^verbatim>\<open>Exception\<close>:
  the handler of line 65 is \<^verbatim>\<open>except Exception\<close>, so a \<^verbatim>\<open>KeyboardInterrupt\<close> raised by
  the operation passes through it. On a fresh breaker of the scenario's service
  the operation runs once and raises, the call raises the same exception, and the
  breaker is what it was: \<open>failure_count\<close> is still 0, \<open>last_failure_time\<close> is still
  0 (not the current time 6) and the status is still HEALTHY, neither FAILED nor
  DEGRADED.
\<close>

theorem C2_counterexample:
  "interrupted_op 0 = (Inl (BaseException ''KeyboardInterrupt'' ''''), 1) \<and>
   call (CircuitBreaker_init llm_config) 5 interrupted_op 0 6
     = (Inl (BaseException ''KeyboardInterrupt'' ''''), CircuitBreaker_init llm_config, 1) \<and>
   failure_count (CircuitBreaker_init llm_config) = 0 \<and>
   last_failure_time (CircuitBreaker_init llm_config) = 0 \<and>
   status (CircuitBreaker_init llm_config) = HEALTHY"
  by (simp add: interrupted_op_def call_def check_recovery_def run_operation_def
        CircuitBreaker_init_def)

text \<open>
  C2, amended: when the call is not refused and the wrapped operation raises an
  exception \<open>e\<close> that is an instance of \<^verbatim>\<open>Exception\<close>, the breaker's \<open>failure_count\<close>
  grows by 1, \<open>last_failure_time\<close> becomes the current time, the status becomes
  FAILED if the new count has reached \<open>max_failures\<close> and DEGRADED otherwise, and
  the call raises the same \<open>e\<close>.
\<close>

theorem C2_failure_is_recorded_and_reraised:
  assumes "\<not> (status cb = FAILED \<and>
              now - last_failure_time cb \<le> real_of_int (recovery_time (config cb)))"
      and "func w = (Inl e, w')"
      and "is_Exception e"
  shows "call cb now func w now'
           = (Inl e,
              cb\<lparr>failure_count := failure_count cb + 1,
                 last_failure_time := now',
                 status := (if failure_count cb + 1 \<ge> max_failures (config cb)
                            then FAILED else DEGRADED)\<rparr>,
              w')"
  using assms by (auto simp add: call_def check_recovery_def run_operation_def Let_def)

text \<open>Witness for C2, amended: the first failure on a fresh breaker of the scenario's service.\<close>

theorem C2_witness:
  "call (CircuitBreaker_init llm_config) 5 failing_op 0 6
     = (Inl (Exception ''TimeoutError'' ''timed out''),
        \<lparr>config = llm_config, failure_count = 1, last_failure_time = 6, status = DEGRADED\<rparr>,
        1)"
proof -
  have a: "\<not> (status (CircuitBreaker_init llm_config) = FAILED \<and>
              5 - last_failure_time (CircuitBreaker_init llm_config)
                \<le> real_of_int (recovery_time (config (CircuitBreaker_init llm_config))))"
    by (simp add: CircuitBreaker_init_def)
  have b: "failing_op 0 = (Inl (Exception ''TimeoutError'' ''timed out''), 1)"
    by (simp add: failing_op_def)
  have c: "is_Exception (Exception ''TimeoutError'' ''timed out'')" by simp
  from C2_failure_is_recorded_and_reraised
         [of "CircuitBreaker_init llm_config" 5 failing_op 0
             "Exception ''TimeoutError'' ''timed out''" 1 6] a b c
  show ?thesis by (simp add: CircuitBreaker_init_def llm_config_def)
qed

section \<open>Properties of the degradation manager\<close>

lemma set_update_cases:
  "(a, b) \<in> set (AList.update k v al) \<Longrightarrow> (a, b) = (k, v) \<or> (a, b) \<in> set al"
  by (induction al) (auto split: if_splits)

lemma breaker_invariant_init: "breaker_invariant (CircuitBreaker_init cfg)"
  by (simp add: breaker_invariant_def CircuitBreaker_init_def)

lemma breaker_invariant_call:
  assumes "breaker_invariant cb" and "call cb now func w now' = (res, cb', w')"
  shows "breaker_invariant cb'"
  using assms
  by (auto simp add: breaker_invariant_def call_def check_recovery_def run_operation_def Let_def
           split: if_splits sum.splits prod.splits)

lemma registry_okD:
  "registry_ok m \<Longrightarrow> (k, cb) \<in> set (services m) \<Longrightarrow> breaker_invariant cb"
  by (auto simp add: registry_ok_def list_all_iff)

lemma registry_ok_update:
  assumes "registry_ok m" and "breaker_invariant cb"
  shows "registry_ok (m\<lparr>services := AList.update k cb (services m)\<rparr>)"
  using assms by (auto simp add: registry_ok_def list_all_iff dest!: set_update_cases)

lemma registry_ok_register: "registry_ok m \<Longrightarrow> registry_ok (register_service m cfg)"
  unfolding register_service_def by (rule registry_ok_update) (simp_all add: breaker_invariant_init)

lemma registry_ok_register_fallback:
  "registry_ok m \<Longrightarrow> registry_ok (register_fallback m k fb)"
  by (simp add: registry_ok_def register_fallback_def)

lemma registry_ok_mark:
  assumes "registry_ok m"
  shows "registry_ok (mark_service_unavailable m k now)"
proof -
  let ?m1 = "if map_of (services m) k = None then register_service m (default_config k) else m"
  have ok1: "registry_ok ?m1"
    using assms by (simp add: registry_ok_register)
  show ?thesis
  proof (cases "map_of (services ?m1) k")
    case None
    then show ?thesis using ok1 by (simp add: mark_service_unavailable_def Let_def)
  next
    case (Some cb)
    have "breaker_invariant
            (cb\<lparr>status := FAILED, failure_count := max_failures (config cb),
                last_failure_time := now\<rparr>)"
      by (simp add: breaker_invariant_def)
    from registry_ok_update [OF ok1 this, of k] Some
    show ?thesis by (simp add: mark_service_unavailable_def Let_def)
  qed
qed

lemma registry_ok_is_available:
  assumes "registry_ok m" and "is_service_available m k = (b, m')"
  shows "registry_ok m'"
  using assms
  by (auto simp add: is_service_available_def Let_def registry_ok_register
           split: option.splits if_splits)

lemma call_service_registry:
  assumes "call_service m k now func w now' = (res, m', w')"
  shows "m' = m \<or>
         (\<exists>cb r cb' v. map_of (services m) k = Some cb \<and> call cb now func w now' = (r, cb', v)
            \<and> m' = m\<lparr>services := AList.update k cb' (services m)\<rparr>)"
  using assms
  by (auto simp add: call_service_def Let_def split: option.splits prod.splits sum.splits exn.splits if_splits)

lemma registry_ok_call_service:
  assumes "registry_ok m" and "call_service m k now func w now' = (res, m', w')"
  shows "registry_ok m'"
proof -
  from call_service_registry [OF assms(2)]
  show ?thesis
  proof
    assume "m' = m"
    then show ?thesis using assms(1) by simp
  next
    assume "\<exists>cb r cb' v. map_of (services m) k = Some cb \<and> call cb now func w now' = (r, cb', v)
            \<and> m' = m\<lparr>services := AList.update k cb' (services m)\<rparr>"
    then obtain cb r cb' v where look: "map_of (services m) k = Some cb"
      and c: "call cb now func w now' = (r, cb', v)"
      and m': "m' = m\<lparr>services := AList.update k cb' (services m)\<rparr>"
      by blast
    from look have "(k, cb) \<in> set (services m)" by (rule map_of_SomeD)
    with assms(1) have "breaker_invariant cb" by (rule registry_okD)
    then have "breaker_invariant cb'" using c by (rule breaker_invariant_call)
    with assms(1) show ?thesis unfolding m' by (rule registry_ok_update)
  qed
qed

lemma reachable_registry_ok: "reachable m \<Longrightarrow> registry_ok m"
proof (induction rule: reachable.induct)
  case r_init
  then show ?case by (simp add: registry_ok_def GracefulDegradation_init_def)
next
  case (r_register_service m cfg)
  then show ?case by (simp add: registry_ok_register)
next
  case (r_register_fallback m service_name fb)
  then show ?case by (simp add: registry_ok_register_fallback)
next
  case (r_call_service m service_name now func w now' res m' w')
  then show ?case by (blast intro: registry_ok_call_service)
next
  case (r_mark m service_name now)
  then show ?case by (simp add: registry_ok_mark)
next
  case (r_is_available m service_name b m')
  then show ?case by (blast intro: registry_ok_is_available)
qed

text \<open>
  C3: in every manager state reached from a fresh manager by any sequence of
  \<^verbatim>\<open>register_service\<close>, \<^verbatim>\<open>register_fallback\<close>, \<^verbatim>\<open>call_service\<close> (whatever the
  operation does: success, failure, refusal), \<^verbatim>\<open>mark_service_unavailable\<close> and
  \<^verbatim>\<open>is_service_available\<close>, every breaker of the registry has \<open>failure_count = 0\<close>
  whenever its status is HEALTHY and \<open>failure_count \<ge> max_failures\<close> whenever its
  status is FAILED.
\<close>

theorem C3_breaker_invariant:
  assumes "reachable m" and "(k, cb) \<in> set (services m)"
  shows "(status cb = HEALTHY \<longrightarrow> failure_count cb = 0) \<and>
         (status cb = FAILED \<longrightarrow> failure_count cb \<ge> max_failures (config cb))"
proof -
  from assms(1) have "registry_ok m" by (rule reachable_registry_ok)
  then have "breaker_invariant cb" using assms(2) by (rule registry_okD)
  then show ?thesis by (simp add: breaker_invariant_def)
qed

text \<open>
  The manager of the scenario after three failures (the breaker trips at 100) and
  a recovery attempt at 102 that a \<^verbatim>\<open>KeyboardInterrupt\<close> cuts short: the handlers of
  \<^verbatim>\<open>call\<close> do not run and the breaker stays in RECOVERING.
\<close>

lemma recovering_manager_reachable: "reachable recovering_manager"
proof -
  let ?start = "register_service (GracefulDegradation_init :: (nat, string) GracefulDegradation) llm_config"
  let ?once = "\<lparr>config = llm_config, failure_count = 1, last_failure_time = 98, status = DEGRADED\<rparr>"
  let ?twice = "\<lparr>config = llm_config, failure_count = 2, last_failure_time = 99, status = DEGRADED\<rparr>"
  let ?M = "\<lambda>b. \<lparr>services = [(''llm'', b)], fallback_handlers = [], initialized = False\<rparr>
              :: (nat, string) GracefulDegradation"
  let ?e = "Inl (Exception ''TimeoutError'' ''timed out'') :: exn + string"
  have r0: "reachable ?start" by (rule r_register_service [OF r_init])
  have m0: "?start = ?M (CircuitBreaker_init llm_config)"
    by (simp add: register_service_def GracefulDegradation_init_def llm_config_def)
  have s1: "call_service (?M (CircuitBreaker_init llm_config)) ''llm'' 97 failing_op 0 98 = (?e, ?M ?once, 1)"
    by (simp add: call_service_def call_def check_recovery_def run_operation_def
          CircuitBreaker_init_def llm_config_def failing_op_def)
  have s2: "call_service (?M ?once) ''llm'' 98 failing_op 1 99 = (?e, ?M ?twice, 2)"
    by (simp add: call_service_def call_def check_recovery_def run_operation_def
          llm_config_def failing_op_def)
  have s3: "call_service (?M ?twice) ''llm'' 99 failing_op 2 100 = (?e, ?M tripped_breaker, 3)"
    by (simp add: call_service_def call_def check_recovery_def run_operation_def
          llm_config_def failing_op_def tripped_breaker_def)
  have s4: "call_service (?M tripped_breaker) ''llm'' 102 interrupted_op 3 103
              = (Inl (BaseException ''KeyboardInterrupt'' ''''), recovering_manager, 4)"
    by (simp add: call_service_def call_def check_recovery_def run_operation_def
          llm_config_def interrupted_op_def tripped_breaker_def recovering_manager_def)
  from r0 have "reachable (?M (CircuitBreaker_init llm_config))" by (simp only: m0)
  then have "reachable (?M ?once)" using s1 by (rule r_call_service)
  then have "reachable (?M ?twice)" using s2 by (rule r_call_service)
  then have "reachable (?M tripped_breaker)" using s3 by (rule r_call_service)
  then show ?thesis using s4 by (rule r_call_service)
qed

text \<open>
  Witness for C3: the reachable manager above, then tripped administratively at
  time 200; its breaker is FAILED with \<open>failure_count = max_failures = 3\<close>.
\<close>

theorem C3_witness:
  "reachable recovering_manager \<and>
   (''llm'', tripped_breaker\<lparr>status := RECOVERING\<rparr>) \<in> set (services recovering_manager) \<and>
   reachable (mark_service_unavailable recovering_manager ''llm'' 200) \<and>
   (''llm'', tripped_breaker\<lparr>last_failure_time := 200\<rparr>)
      \<in> set (services (mark_service_unavailable recovering_manager ''llm'' 200)) \<and>
   status (tripped_breaker\<lparr>last_failure_time := 200\<rparr>) = FAILED \<and>
   failure_count (tripped_breaker\<lparr>last_failure_time := 200\<rparr>)
     \<ge> max_failures (config (tripped_breaker\<lparr>last_failure_time := 200\<rparr>))"
proof -
  let ?m = "mark_service_unavailable recovering_manager ''llm'' 200"
  let ?cb = "tripped_breaker\<lparr>last_failure_time := 200\<rparr>"
  have r: "reachable ?m" by (rule r_mark [OF recovering_manager_reachable])
  have i: "(''llm'', ?cb) \<in> set (services ?m)"
    by (simp add: mark_service_unavailable_def recovering_manager_def tripped_breaker_def
          llm_config_def)
  have st: "status ?cb = FAILED" by (simp add: tripped_breaker_def)
  have i0: "(''llm'', tripped_breaker\<lparr>status := RECOVERING\<rparr>) \<in> set (services recovering_manager)"
    by (simp add: recovering_manager_def)
  from C3_breaker_invariant [OF r i] st recovering_manager_reachable r i i0
  show ?thesis by simp
qed

text \<open>
  What \<^verbatim>\<open>can_operate_in_degraded_mode\<close> computes: the registry is empty, or some
  registered service is HEALTHY or DEGRADED or has a fallback registered. A service
  in RECOVERING does not count.
\<close>

lemma fold_count_ge:
  "fold (\<lambda>(k, v) n. if P k v then n + 1 else n) xs (a :: int) \<ge> a"
proof (induction xs arbitrary: a)
  case Nil
  then show ?case by simp
next
  case (Cons x xs)
  have "a \<le> (case x of (k, v) \<Rightarrow> \<lambda>n. if P k v then n + 1 else n) a"
    by (simp split: prod.splits)
  also have "\<dots> \<le> fold (\<lambda>(k, v) n. if P k v then n + 1 else n) xs
                     ((case x of (k, v) \<Rightarrow> \<lambda>n. if P k v then n + 1 else n) a)"
    by (rule Cons.IH)
  finally show ?case by simp
qed

lemma fold_count_gt:
  "fold (\<lambda>(k, v) n. if P k v then n + 1 else n) xs (a :: int) > a
     \<longleftrightarrow> (\<exists>(k, v) \<in> set xs. P k v)"
proof (induction xs arbitrary: a)
  case Nil
  then show ?case by simp
next
  case (Cons x xs)
  obtain k v where x: "x = (k, v)" by (cases x)
  show ?case
  proof (cases "P k v")
    case True
    have "a + 1 \<le> fold (\<lambda>(k, v) n. if P k v then n + 1 else n) xs (a + 1)"
      by (rule fold_count_ge)
    then show ?thesis using True x by simp
  next
    case False
    then show ?thesis using x Cons.IH [of a] by simp
  qed
qed

lemma can_operate_in_degraded_mode_iff:
  "can_operate_in_degraded_mode m \<longleftrightarrow>
     services m = [] \<or>
     (\<exists>(k, cb) \<in> set (services m).
        status cb = HEALTHY \<or> status cb = DEGRADED \<or> map_of (fallback_handlers m) k \<noteq> None)"
proof -
  have "(0 < fold (\<lambda>(k, cb) n. if status cb \<in> set [HEALTHY, DEGRADED]
                                   \<or> map_of (fallback_handlers m) k \<noteq> None
                                then n + 1 else n) (services m) (0::int))
        \<longleftrightarrow> (\<exists>(k, cb) \<in> set (services m).
               status cb \<in> set [HEALTHY, DEGRADED] \<or> map_of (fallback_handlers m) k \<noteq> None)"
    by (rule fold_count_gt)
  then show ?thesis
    by (auto simp add: can_operate_in_degraded_mode_def Let_def)
qed

text \<open>
  C4 at the failing input: the registry holds one service, its status is
  RECOVERING (not FAILED) and no fallback is registered. The state is reachable,
  \<^verbatim>\<open>is_service_available\<close> answers true for the service, and
  \<^verbatim>\<open>can_operate_in_degraded_mode\<close> answers false.
\<close>

theorem C4_recovering_service_not_counted:
  "reachable recovering_manager \<and>
   services recovering_manager \<noteq> [] \<and>
   map_of (services recovering_manager) ''llm'' = Some (tripped_breaker\<lparr>status := RECOVERING\<rparr>) \<and>
   status (tripped_breaker\<lparr>status := RECOVERING\<rparr>) = RECOVERING \<and>
   is_service_available recovering_manager ''llm'' = (True, recovering_manager) \<and>
   can_operate_in_degraded_mode recovering_manager = False"
  using recovering_manager_reachable
  by (simp add: recovering_manager_def is_service_available_def can_operate_in_degraded_mode_def)

text \<open>
  C10: when the call is not refused by the breaker and the wrapped operation
  itself raises \<^verbatim>\<open>ServiceUnavailableError\<close>, \<^verbatim>\<open>call_service\<close> returns what the
  registered fallback returns, whatever \<open>fallback_enabled\<close> is, and the breaker
  kept in the registry has recorded the failure: \<open>failure_count\<close> one higher,
  \<open>last_failure_time\<close> the current time, status FAILED when the count has reached
  \<open>max_failures\<close> and DEGRADED otherwise. The fallback runs on the world the
  failed operation left.
\<close>

theorem C10_unavailable_from_operation_uses_fallback:
  assumes "map_of (services m) k = Some cb"
      and "\<not> (status cb = FAILED \<and>
              now - last_failure_time cb \<le> real_of_int (recovery_time (config cb)))"
      and "func w = (Inl (ServiceUnavailableError msg), w')"
      and "map_of (fallback_handlers m) k = Some fb"
  shows "call_service m k now func w now'
           = (fst (fb w'),
              m\<lparr>services :=
                   AList.update k
                     (cb\<lparr>failure_count := failure_count cb + 1,
                         last_failure_time := now',
                         status := (if failure_count cb + 1 \<ge> max_failures (config cb)
                                    then FAILED else DEGRADED)\<rparr>)
                     (services m)\<rparr>,
              snd (fb w'))"
proof -
  have "call cb now func w now'
           = (Inl (ServiceUnavailableError msg),
              cb\<lparr>failure_count := failure_count cb + 1,
                 last_failure_time := now',
                 status := (if failure_count cb + 1 \<ge> max_failures (config cb)
                            then FAILED else DEGRADED)\<rparr>,
              w')"
    using assms(2,3)
    by (auto simp add: call_def check_recovery_def run_operation_def Let_def)
  then show ?thesis
    using assms(1,4) by (simp add: call_service_def Let_def split: prod.splits)
qed

text \<open>
  Witness for C10: the scenario's service registered with \<open>fallback_enabled = False\<close>
  and a fallback; the operation raises \<^verbatim>\<open>ServiceUnavailableError\<close> on a fresh breaker.
\<close>

theorem C10_witness:
  "fallback_enabled no_fallback_config = False \<and>
   call_service no_fallback_flag_manager ''llm'' 5 unavailable_op 0 6
     = (Inr ''degraded'',
        no_fallback_flag_manager
          \<lparr>services := [(''llm'', \<lparr>config = no_fallback_config, failure_count = 1,
                                 last_failure_time = 6, status = DEGRADED\<rparr>)]\<rparr>,
        1)"
proof -
  let ?cb = "CircuitBreaker_init no_fallback_config"
  have a: "map_of (services no_fallback_flag_manager) ''llm'' = Some ?cb"
    by (simp add: no_fallback_flag_manager_def register_fallback_def register_service_def
          GracefulDegradation_init_def no_fallback_config_def llm_config_def)
  have b: "\<not> (status ?cb = FAILED \<and>
              5 - last_failure_time ?cb \<le> real_of_int (recovery_time (config ?cb)))"
    by (simp add: CircuitBreaker_init_def)
  have c: "unavailable_op 0 = (Inl (ServiceUnavailableError ''upstream unavailable''), 1)"
    by (simp add: unavailable_op_def)
  have d: "map_of (fallback_handlers no_fallback_flag_manager) ''llm'' = Some fallback_F"
    by (simp add: no_fallback_flag_manager_def register_fallback_def register_service_def
          GracefulDegradation_init_def)
  have e: "services no_fallback_flag_manager = [(''llm'', ?cb)]"
    by (simp add: no_fallback_flag_manager_def register_fallback_def register_service_def
          GracefulDegradation_init_def no_fallback_config_def llm_config_def)
  from C10_unavailable_from_operation_uses_fallback
         [of no_fallback_flag_manager "''llm''" ?cb 5 unavailable_op 0
             "''upstream unavailable''" 1 fallback_F 6] a b c d
  show ?thesis
    by (simp add: e CircuitBreaker_init_def fallback_F_def no_fallback_config_def llm_config_def)
qed

section \<open>Properties of the error collector\<close>

lemma max_errors_add_error [simp]:
  "max_errors (add_error ec e c n t) = max_errors ec"
  by (simp add: add_error_def Let_def)

lemma errors_add_error:
  "errors (add_error ec e c n t) =
     (if int (length (errors ec)) + 1 > max_errors ec
      then tl (errors ec @ [error_info e c n t])
      else errors ec @ [error_info e c n t])"
  by (simp add: add_error_def Let_def)

lemma error_count_add_error:
  "error_count (add_error ec e c n t) k
     = error_count ec k + (if type_name e = k then 1 else 0)"
  by (simp add: add_error_def Let_def error_count_def update_conv')

lemma max_errors_add_errors [simp]:
  "max_errors (add_errors ec calls) = max_errors ec"
  by (induction ec calls rule: add_errors.induct) simp_all

lemma error_count_add_errors:
  "error_count (add_errors ec calls) k
     = error_count ec k + int (length (filter (\<lambda>c. type_of_call c = k) calls))"
  by (induction ec calls rule: add_errors.induct) (simp_all add: error_count_add_error)

text \<open>
  The buffer after a sequence of calls: the records of the calls in order, behind
  what the buffer held, cut from the front to the capacity.
\<close>

lemma errors_add_errors:
  assumes "int (length (errors ec)) \<le> max_errors ec"
  shows "errors (add_errors ec calls)
           = drop (length (errors ec) + length calls - nat (max_errors ec))
                  (errors ec @ map info_of calls)"
  using assms
proof (induction ec calls rule: add_errors.induct)
  case (1 ec)
  then show ?case by simp
next
  case (2 ec error ctx now trace rest)
  let ?i = "error_info error ctx now trace"
  let ?ec = "add_error ec error ctx now trace"
  show ?case
  proof (cases "int (length (errors ec)) + 1 > max_errors ec")
    case True
    with "2.prems" have full: "length (errors ec) = nat (max_errors ec)" by linarith
    have e: "errors ?ec = tl (errors ec @ [?i])"
      using True by (simp add: errors_add_error)
    have len: "length (errors ?ec) = nat (max_errors ec)"
      using full by (simp add: e)
    have "int (length (errors ?ec)) \<le> max_errors ?ec"
      using len "2.prems" by simp
    from "2.IH" [OF this]
    have ih: "errors (add_errors ?ec rest)
                = drop (length (errors ?ec) + length rest - nat (max_errors ?ec))
                       (errors ?ec @ map info_of rest)" .
    have i1: "length (errors ?ec) + length rest - nat (max_errors ?ec) = length rest"
      using len by simp
    have i2: "length (errors ec) + length ((error, ctx, now, trace) # rest) - nat (max_errors ec)
                = Suc (length rest)"
      using full by simp
    have t: "errors ?ec @ map info_of rest = tl (errors ec @ ?i # map info_of rest)"
      unfolding e by (cases "errors ec") simp_all
    have "errors (add_errors ec ((error, ctx, now, trace) # rest))
            = drop (length rest) (tl (errors ec @ ?i # map info_of rest))"
      using ih unfolding i1 t by simp
    also have "\<dots> = drop (Suc (length rest)) (errors ec @ ?i # map info_of rest)"
      by (simp only: drop_Suc)
    also have "errors ec @ ?i # map info_of rest
                 = errors ec @ map info_of ((error, ctx, now, trace) # rest)"
      by simp
    finally show ?thesis unfolding i2 .
  next
    case False
    have e: "errors ?ec = errors ec @ [?i]"
      using False by (simp add: errors_add_error)
    have "int (length (errors ?ec)) \<le> max_errors ?ec"
      using False by (simp add: e)
    from "2.IH" [OF this] show ?thesis
      by (simp add: e)
  qed
qed

lemma errors_fresh:
  assumes "errors ec = []" and "0 \<le> max_errors ec"
  shows "errors (add_errors ec calls)
           = drop (length calls - nat (max_errors ec)) (map info_of calls)"
  using errors_add_errors [of ec calls] assms by simp

text \<open>
  C5: after \<open>1000 + N\<close> calls of \<^verbatim>\<open>add_error\<close> on a fresh collector of the default
  capacity, the buffer holds exactly 1000 records, namely those of the last 1000
  calls in order (the \<open>N\<close> oldest were evicted), and for every class name the
  counter equals the number of calls with an error of that class.
\<close>

theorem C5_buffer_bounded_counts_cumulative:
  assumes "length calls = 1000 + N"
  shows "length (errors (add_errors (ErrorCollector_init default_max_errors) calls)) = 1000 \<and>
         errors (add_errors (ErrorCollector_init default_max_errors) calls)
           = drop N (map info_of calls) \<and>
         error_count (add_errors (ErrorCollector_init default_max_errors) calls) t
           = int (length (filter (\<lambda>c. type_of_call c = t) calls))"
proof -
  let ?ec = "ErrorCollector_init default_max_errors"
  have "errors (add_errors ?ec calls) = drop (length calls - nat (max_errors ?ec)) (map info_of calls)"
    by (rule errors_fresh) (simp_all add: ErrorCollector_init_def default_max_errors_def)
  then have e: "errors (add_errors ?ec calls) = drop N (map info_of calls)"
    using assms by (simp add: ErrorCollector_init_def default_max_errors_def)
  have c: "error_count (add_errors ?ec calls) t
             = int (length (filter (\<lambda>c. type_of_call c = t) calls))"
    by (simp add: error_count_add_errors) (simp add: error_count_def ErrorCollector_init_def)
  from e c assms show ?thesis by simp
qed

text \<open>Witness for C5: 1003 errors of one class; 1000 records stay, the counter is 1003.\<close>

theorem C5_witness:
  "length (replicate 1003 sample_call) = 1000 + 3 \<and>
   length (errors (add_errors (ErrorCollector_init default_max_errors)
                     (replicate 1003 sample_call))) = 1000 \<and>
   error_count (add_errors (ErrorCollector_init default_max_errors)
                  (replicate 1003 sample_call)) ''ValueError'' = 1003"
proof -
  have l: "length (replicate 1003 sample_call) = 1000 + 3" by simp
  have "filter (\<lambda>c. type_of_call c = ''ValueError'') (replicate 1003 sample_call)
          = replicate 1003 sample_call"
    by (simp add: sample_call_def)
  with C5_buffer_bounded_counts_cumulative [OF l, of "''ValueError''"] l
  show ?thesis by simp
qed

lemma summary_after_adds:
  assumes "errors ec = []" and "error_counts ec = []" and "0 \<le> max_errors ec"
  shows "total_errors (get_error_summary (add_errors ec calls))
           = min (length calls) (nat (max_errors ec))"
    and "(case map_of (summary_error_counts (get_error_summary (add_errors ec calls))) t of
            None \<Rightarrow> 0 | Some c \<Rightarrow> c)
           = int (length (filter (\<lambda>c. type_of_call c = t) calls))"
    and "recent_errors (get_error_summary (add_errors ec calls))
           = drop (length (drop (length calls - nat (max_errors ec)) (map info_of calls)) - 10)
               (drop (length calls - nat (max_errors ec)) (map info_of calls))"
proof -
  have e: "errors (add_errors ec calls)
             = drop (length calls - nat (max_errors ec)) (map info_of calls)"
    using assms(1,3) by (rule errors_fresh)
  show "total_errors (get_error_summary (add_errors ec calls))
           = min (length calls) (nat (max_errors ec))"
    by (simp add: get_error_summary_def e)
  have "error_count (add_errors ec calls) t
          = int (length (filter (\<lambda>c. type_of_call c = t) calls))"
    using assms(2) by (simp add: error_count_add_errors) (simp add: error_count_def)
  then show "(case map_of (summary_error_counts (get_error_summary (add_errors ec calls))) t of
            None \<Rightarrow> 0 | Some c \<Rightarrow> c)
           = int (length (filter (\<lambda>c. type_of_call c = t) calls))"
    by (simp add: get_error_summary_def error_count_def)
  show "recent_errors (get_error_summary (add_errors ec calls))
           = drop (length (drop (length calls - nat (max_errors ec)) (map info_of calls)) - 10)
               (drop (length calls - nat (max_errors ec)) (map info_of calls))"
    by (simp add: get_error_summary_def e)
qed

text \<open>
  C6, as stated, fails: \<^verbatim>\<open>total_errors\<close> is the length of the buffer. After 1001
  errors on a fresh collector of the default capacity the summary reports 1000.
\<close>

theorem C6_counterexample:
  "length (replicate 1001 sample_call) = 1001 \<and>
   total_errors (get_error_summary
                   (add_errors (ErrorCollector_init default_max_errors)
                      (replicate 1001 sample_call))) = 1000"
proof -
  have "total_errors (get_error_summary
                   (add_errors (ErrorCollector_init default_max_errors)
                      (replicate 1001 sample_call)))
          = min (length (replicate 1001 sample_call))
                (nat (max_errors (ErrorCollector_init default_max_errors)))"
    by (rule summary_after_adds(1)) (simp_all add: ErrorCollector_init_def default_max_errors_def)
  then show ?thesis by (simp add: ErrorCollector_init_def default_max_errors_def)
qed

text \<open>
  C6, amended: after any sequence of \<^verbatim>\<open>add_error\<close> calls since construction or since
  the last \<^verbatim>\<open>clear_errors\<close>, on a collector of the default capacity, the summary
  reports as \<^verbatim>\<open>total_errors\<close> the number of records held in the buffer, which is the
  number of errors added capped at 1000, together with the cumulative count of
  every class and the 10 most recent records (all of them when there are fewer).
\<close>

theorem C6_summary_counts_buffered_records:
  assumes "max_errors ec = default_max_errors"
  shows "total_errors (get_error_summary (add_errors (clear_errors ec) calls))
           = min (length calls) 1000 \<and>
         (case map_of (summary_error_counts
                         (get_error_summary (add_errors (clear_errors ec) calls))) t of
            None \<Rightarrow> 0 | Some c \<Rightarrow> c)
           = int (length (filter (\<lambda>c. type_of_call c = t) calls)) \<and>
         recent_errors (get_error_summary (add_errors (clear_errors ec) calls))
           = drop (length calls - 10) (map info_of calls)"
proof -
  let ?ec = "clear_errors ec"
  have a: "errors ?ec = []" and b: "error_counts ?ec = []" and c: "0 \<le> max_errors ?ec"
    and m: "nat (max_errors ?ec) = 1000"
    using assms by (simp_all add: clear_errors_def default_max_errors_def)
  note s = summary_after_adds [OF a b c, of calls]
  have "drop (length (drop (length calls - 1000) (map info_of calls)) - 10)
               (drop (length calls - 1000) (map info_of calls))
          = drop (length calls - 10) (map info_of calls)"
  proof -
    have "length calls - (length calls - 1000 + 10) + (length calls - 1000) = length calls - 10"
      by arith
    then show ?thesis by (simp add: drop_drop)
  qed
  with s(1) s(2) [of t] s(3) show ?thesis by (simp add: m)
qed

text \<open>Witness for C6, amended: a fresh collector and 1001 errors.\<close>

theorem C6_witness:
  "max_errors (ErrorCollector_init default_max_errors) = default_max_errors \<and>
   total_errors (get_error_summary
      (add_errors (clear_errors (ErrorCollector_init default_max_errors))
         (replicate 1001 sample_call))) = 1000"
proof -
  have m: "max_errors (ErrorCollector_init default_max_errors) = default_max_errors"
    by (simp add: ErrorCollector_init_def)
  from C6_summary_counts_buffered_records [OF m, of "replicate 1001 sample_call"] m
  show ?thesis by simp
qed

section \<open>Properties of the health monitor\<close>

text \<open>
  C7: with the thresholds the constructor sets, the status is \<open>critical\<close> iff
  cpu \<open>\<ge>\<close> 90 or memory \<open>\<ge>\<close> 95 or disk \<open>\<ge>\<close> 95 or error rate \<open>\<ge>\<close> 15 or average
  response time \<open>\<ge>\<close> 10; otherwise \<open>warning\<close> iff cpu \<open>\<ge>\<close> 70 or memory \<open>\<ge>\<close> 80 or
  disk \<open>\<ge>\<close> 85 or error rate \<open>\<ge>\<close> 5 or average response time \<open>\<ge>\<close> 5; otherwise
  \<open>healthy\<close>. The sample cpu = 95, memory = 50, disk = 10, error rate = 0,
  average response time = 0.1 is \<open>critical\<close>.
\<close>

theorem C7_status_thresholds:
  assumes "thresholds hm = thresholds (HealthMonitor_init interval now)"
  shows "(determine_health_status hm cpu memory disk err_rate response_time = ''critical''
            \<longleftrightarrow> cpu \<ge> 90 \<or> memory \<ge> 95 \<or> disk \<ge> 95 \<or> err_rate \<ge> 15 \<or> response_time \<ge> 10) \<and>
         (determine_health_status hm cpu memory disk err_rate response_time = ''warning''
            \<longleftrightarrow> \<not> (cpu \<ge> 90 \<or> memory \<ge> 95 \<or> disk \<ge> 95 \<or> err_rate \<ge> 15 \<or> response_time \<ge> 10)
                \<and> (cpu \<ge> 70 \<or> memory \<ge> 80 \<or> disk \<ge> 85 \<or> err_rate \<ge> 5 \<or> response_time \<ge> 5)) \<and>
         (determine_health_status hm cpu memory disk err_rate response_time = ''healthy''
            \<longleftrightarrow> \<not> (cpu \<ge> 90 \<or> memory \<ge> 95 \<or> disk \<ge> 95 \<or> err_rate \<ge> 15 \<or> response_time \<ge> 10)
                \<and> \<not> (cpu \<ge> 70 \<or> memory \<ge> 80 \<or> disk \<ge> 85 \<or> err_rate \<ge> 5 \<or> response_time \<ge> 5)) \<and>
         determine_health_status hm 95 50 10 0 0.1 = ''critical''"
  using assms by (simp add: determine_health_status_def HealthMonitor_init_def)

text \<open>Witness for C7: a fresh monitor, one sample of each status.\<close>

theorem C7_witness:
  "thresholds (HealthMonitor_init 30 0) = thresholds (HealthMonitor_init 30 0) \<and>
   determine_health_status (HealthMonitor_init 30 0) 95 50 10 0 0.1 = ''critical'' \<and>
   determine_health_status (HealthMonitor_init 30 0) 75 50 10 0 0.1 = ''warning'' \<and>
   determine_health_status (HealthMonitor_init 30 0) 20 50 10 0 0.1 = ''healthy''"
proof -
  have t: "thresholds (HealthMonitor_init 30 0) = thresholds (HealthMonitor_init 30 0)" ..
  from C7_status_thresholds [OF t, of 95 50 10 0 "0.1"]
       C7_status_thresholds [OF t, of 75 50 10 0 "0.1"]
       C7_status_thresholds [OF t, of 20 50 10 0 "0.1"]
  show ?thesis by simp
qed

text \<open>The body of the \<^verbatim>\<open>try\<close> raises what the first failing source raises.\<close>

lemma collect_body_raised:
  assumes "raised src \<noteq> []"
  shows "collect_body hm src = Inl (hd (raised src))"
  using assms
  by (simp add: collect_body_def raised_def Let_def split: sum.splits prod.splits)

text \<open>
  C8, as stated, fails: the sample returned after a failed read has
  \<^verbatim>\<open>error_rate = 100.0\<close>, not zero. Here the disk cannot be read.
\<close>

theorem C8_counterexample:
  "raised unreadable_sources = [Exception ''FileNotFoundError'' ''no such drive''] \<and>
   collect_metrics (HealthMonitor_init 30 0) unreadable_sources
     = Inr (failure_sample ''2024-01-01T00:01:01'') \<and>
   health_status (failure_sample ''2024-01-01T00:01:01'') = ''critical'' \<and>
   error_rate (failure_sample ''2024-01-01T00:01:01'') = 100 \<and>
   error_rate (failure_sample ''2024-01-01T00:01:01'') \<noteq> 0"
  by (simp add: raised_def unreadable_sources_def collect_metrics_def collect_body_def
        failure_sample_def)

text \<open>
  C8, amended: whenever a metrics source raises an \<^verbatim>\<open>Exception\<close> during the
  collection of a sample, \<^verbatim>\<open>collect_metrics\<close> returns (it does not raise) a sample
  whose status is \<open>critical\<close>, whose \<^verbatim>\<open>error_rate\<close> is 100 and whose other metric
  fields (\<^verbatim>\<open>cpu_percent\<close>, \<^verbatim>\<open>memory_percent\<close>, \<^verbatim>\<open>memory_available_mb\<close>,
  \<^verbatim>\<open>disk_usage_percent\<close>, \<^verbatim>\<open>uptime_seconds\<close>, \<^verbatim>\<open>active_connections\<close>,
  \<^verbatim>\<open>api_response_time_avg\<close>) are zero; the pass of the monitoring loop appends
  that sample to the bounded history and the loop goes on with the next interval.
\<close>

theorem C8_failed_collection_gives_critical_sample:
  assumes "raised src \<noteq> []" and "is_Exception (hd (raised src))"
  shows "collect_metrics hm src
           = Inr \<lparr>sample_timestamp = stamp_except src,
                  cpu_percent = 0, memory_percent = 0, memory_available_mb = 0,
                  disk_usage_percent = 0, uptime_seconds = 0, active_connections = 0,
                  error_rate = 100, api_response_time_avg = 0,
                  health_status = ''critical''\<rparr> \<and>
         monitoring_iteration hm src
           = Inr (hm\<lparr>health_history :=
                      (if int (length (health_history hm @ [failure_sample (stamp_except src)]))
                            > max_history hm
                       then tl (health_history hm @ [failure_sample (stamp_except src)])
                       else health_history hm @ [failure_sample (stamp_except src)])\<rparr>) \<and>
         monitoring_loop hm (src # rest)
           = monitoring_loop
               (hm\<lparr>health_history :=
                      (if int (length (health_history hm @ [failure_sample (stamp_except src)]))
                            > max_history hm
                       then tl (health_history hm @ [failure_sample (stamp_except src)])
                       else health_history hm @ [failure_sample (stamp_except src)])\<rparr>)
               rest"
proof -
  have c: "collect_metrics hm src = Inr (failure_sample (stamp_except src))"
    using assms by (simp add: collect_metrics_def collect_body_raised)
  then have i: "monitoring_iteration hm src
           = Inr (hm\<lparr>health_history :=
                      (if int (length (health_history hm @ [failure_sample (stamp_except src)]))
                            > max_history hm
                       then tl (health_history hm @ [failure_sample (stamp_except src)])
                       else health_history hm @ [failure_sample (stamp_except src)])\<rparr>)"
    by (simp add: monitoring_iteration_def Let_def)
  from c have "collect_metrics hm src
           = Inr \<lparr>sample_timestamp = stamp_except src,
                  cpu_percent = 0, memory_percent = 0, memory_available_mb = 0,
                  disk_usage_percent = 0, uptime_seconds = 0, active_connections = 0,
                  error_rate = 100, api_response_time_avg = 0,
                  health_status = ''critical''\<rparr>"
    by (simp add: failure_sample_def)
  moreover note i
  moreover from i have "monitoring_loop hm (src # rest)
           = monitoring_loop
               (hm\<lparr>health_history :=
                      (if int (length (health_history hm @ [failure_sample (stamp_except src)]))
                            > max_history hm
                       then tl (health_history hm @ [failure_sample (stamp_except src)])
                       else health_history hm @ [failure_sample (stamp_except src)])\<rparr>)
               rest"
    by simp
  ultimately show ?thesis by blast
qed

text \<open>
  Witness for C8, amended: two intervals in a row with an unreadable disk; the
  loop ends normally with two critical samples in the history.
\<close>

theorem C8_witness:
  "raised unreadable_sources \<noteq> [] \<and> is_Exception (hd (raised unreadable_sources)) \<and>
   monitoring_loop (HealthMonitor_init 30 0) [unreadable_sources, unreadable_sources]
     = Inr ((HealthMonitor_init 30 0)
              \<lparr>health_history := [failure_sample ''2024-01-01T00:01:01'',
                                   failure_sample ''2024-01-01T00:01:01'']\<rparr>)"
proof -
  have r: "raised unreadable_sources \<noteq> []"
    by (simp add: raised_def unreadable_sources_def)
  have x: "is_Exception (hd (raised unreadable_sources))"
    by (simp add: raised_def unreadable_sources_def)
  have s: "stamp_except unreadable_sources = ''2024-01-01T00:01:01''"
    by (simp add: unreadable_sources_def)
  let ?hm = "HealthMonitor_init 30 0"
  let ?f = "failure_sample ''2024-01-01T00:01:01''"
  from C8_failed_collection_gives_critical_sample [OF r x, of ?hm "[unreadable_sources]"]
  have "monitoring_loop ?hm [unreadable_sources, unreadable_sources]
          = monitoring_loop (?hm\<lparr>health_history := [?f]\<rparr>) [unreadable_sources]"
    by (simp add: s) (simp add: HealthMonitor_init_def)
  also from C8_failed_collection_gives_critical_sample
              [OF r x, of "?hm\<lparr>health_history := [?f]\<rparr>" "[]"]
  have "monitoring_loop (?hm\<lparr>health_history := [?f]\<rparr>) [unreadable_sources]
          = Inr (?hm\<lparr>health_history := [?f, ?f]\<rparr>)"
    by (simp add: s) (simp add: HealthMonitor_init_def)
  finally show ?thesis using r x by simp
qed

lemma api_total_record_api_call:
  "api_total (record_api_call hm s b d err c n) s = api_total hm s + 1"
  by (cases "map_of (api_metrics hm) s")
     (simp_all add: record_api_call_def Let_def update_conv' api_total_def)

lemma api_avg_record_api_call:
  "api_avg (record_api_call hm s b d err c n) s
     = (api_avg hm s * real (api_total hm s) + d) / real (api_total hm s + 1)"
  by (cases "map_of (api_metrics hm) s")
     (simp_all add: record_api_call_def Let_def update_conv' api_total_def api_avg_def)

lemma api_fresh:
  "map_of (api_metrics hm) s = None \<Longrightarrow> api_total hm s = 0 \<and> api_avg hm s = 0"
  by (simp add: api_total_def api_avg_def)

text \<open>
  C9: \<^verbatim>\<open>record_api_call\<close> increments the service's \<^verbatim>\<open>total_calls\<close> and sets its
  average to \<open>(old_avg * (n - 1) + duration) / n\<close>, where \<open>n\<close> is the incremented
  \<^verbatim>\<open>total_calls\<close>; three calls with the durations 2, 4 and 6 on a service without a
  row give the average 4, whatever the other arguments of the calls are.
\<close>

theorem C9_streaming_mean:
  "api_total (record_api_call hm s b d err c n) s = api_total hm s + 1 \<and>
   api_avg (record_api_call hm s b d err c n) s
     = (api_avg hm s * real (api_total (record_api_call hm s b d err c n) s - 1) + d)
         / real (api_total (record_api_call hm s b d err c n) s) \<and>
   (map_of (api_metrics hm) s = None \<longrightarrow>
      api_avg (record_api_call
                 (record_api_call
                    (record_api_call hm s b1 2 err1 c1 n1)
                    s b2 4 err2 c2 n2)
                 s b3 6 err3 c3 n3) s = 4)"
proof -
  have t: "api_total (record_api_call hm s b d err c n) s = api_total hm s + 1"
    by (rule api_total_record_api_call)
  have a: "api_avg (record_api_call hm s b d err c n) s
     = (api_avg hm s * real (api_total (record_api_call hm s b d err c n) s - 1) + d)
         / real (api_total (record_api_call hm s b d err c n) s)"
    by (simp add: api_avg_record_api_call api_total_record_api_call)
  have e: "api_avg (record_api_call
                 (record_api_call
                    (record_api_call hm s b1 2 err1 c1 n1)
                    s b2 4 err2 c2 n2)
                 s b3 6 err3 c3 n3) s = 4"
    if "map_of (api_metrics hm) s = None"
    using api_fresh [OF that]
    by (simp add: api_avg_record_api_call api_total_record_api_call)
  from t a e show ?thesis by blast
qed

text \<open>Witness for C9: the three calls on a fresh monitor.\<close>

theorem C9_witness:
  "map_of (api_metrics (HealthMonitor_init 30 0)) ''anthropic'' = None \<and>
   api_avg (record_api_call
              (record_api_call
                 (record_api_call (HealthMonitor_init 30 0)
                    ''anthropic'' True 2 None ''t0'' ''t1'')
                 ''anthropic'' False 4 (Some ''timeout'') ''t2'' ''t3'')
              ''anthropic'' True 6 None ''t4'' ''t5'') ''anthropic'' = 4"
proof -
  have f: "map_of (api_metrics (HealthMonitor_init 30 0)) ''anthropic'' = None"
    by (simp add: HealthMonitor_init_def)
  from C9_streaming_mean [of "HealthMonitor_init 30 0" "''anthropic''"] f
  show ?thesis by blast
qed

end
